theory Spec2Isabelle
  imports Main "HOL-Library.Word"
begin

section \<open>The machine the trace hook runs on\<close>

text \<open>
  The repository is one C translation unit, \<^verbatim>\<open>src/weak_on_trace.c\<close>:
  \<^verbatim>\<open>
  #include <stddef.h>
  __attribute__((weak)) void _on_trace(unsigned int, const unsigned char*, size_t) {}
  \<close>
  The three parameters are unnamed and the body is the empty compound statement.

  \<^verbatim>\<open>unsigned int\<close> is a 32-bit word and \<^verbatim>\<open>unsigned char\<close> an 8-bit word. The width of
  a pointer and of \<^verbatim>\<open>size_t\<close> depends on the target, so it stays a type parameter
  \<open>'w\<close>: addresses and lengths are \<open>'w word\<close>, and the null pointer is the address 0.
\<close>

type_synonym u32 = "32 word"
type_synonym byte = "8 word"

abbreviation NULL :: "'w::len word" where
  "NULL \<equiv> 0"

text \<open>
  What a C function can do to the world around it, as explicit state:
  \<^item> \<open>mem\<close>: the bytes of the process (globals, stack, heap); an address that is not
    mapped, or whose allocation has been freed, holds \<open>None\<close>;
  \<^item> \<open>written\<close>: the bytes written to the outside so far (logs, files, streams);
  \<^item> \<open>accesses\<close>: the addresses dereferenced so far, latest first;
  \<^item> \<open>held\<close>: how many resources (allocations, locks, handles) are held;
  \<^item> \<open>waits\<close>: how many times execution has suspended, blocked or yielded.
\<close>

record 'p machine =
  mem :: "'p \<Rightarrow> byte option"
  written :: "byte list"
  accesses :: "'p list"
  held :: nat
  waits :: nat

text \<open>A run either stops with a fault or returns a value and the machine after it.\<close>

datatype fault = Segfault | Abort

type_synonym ('p, 'r) prog = "'p machine \<Rightarrow> fault + 'r \<times> 'p machine"

text \<open>Control reaching the closing brace of a \<^verbatim>\<open>void\<close> function: return, nothing else.\<close>

definition return_void :: "('p, unit) prog" where
  "return_void s = Inr ((), s)"

text \<open>One statement after another; a fault in the first ends the run.\<close>

definition seq :: "('p, unit) prog \<Rightarrow> ('p, 'r) prog \<Rightarrow> ('p, 'r) prog" where
  "seq p q s = (case p s of Inl f \<Rightarrow> Inl f | Inr (u, s') \<Rightarrow> q s')"

text \<open>
  Reading one byte through a pointer. This is the machine's dereference, not part of the
  hook: it fixes what \<open>accesses\<close> and \<open>Segfault\<close> mean, so that "does not dereference"
  and "does not fail" are statements a function of this model can violate.
\<close>

definition load :: "'p \<Rightarrow> ('p, byte) prog" where
  "load a s =
     (case mem s a of
        None \<Rightarrow> Inl Segfault
      | Some b \<Rightarrow> Inr (b, s\<lparr>accesses := a # accesses s\<rparr>))"

section \<open>The default hook\<close>

text \<open>
  \<^verbatim>\<open>void _on_trace(unsigned int, const unsigned char*, size_t) {}\<close>
  (an Isabelle name cannot start with an underscore, so the constant is \<open>on_trace\<close>).
  The parameters, unnamed in the source, are the event identifier, the data pointer and the
  length. The body has no statement: the function returns.
\<close>

fun on_trace :: "u32 \<Rightarrow> 'w::len word \<Rightarrow> 'w word \<Rightarrow> ('w word, unit) prog" where
  "on_trace _ _ _ = return_void"

text \<open>A finite sequence of calls, each with its own arguments, in order.\<close>

fun on_trace_calls :: "(u32 \<times> 'w::len word \<times> 'w word) list \<Rightarrow> ('w word, unit) prog" where
  "on_trace_calls [] = return_void"
| "on_trace_calls ((event_id, data, len) # cs) =
     seq (on_trace event_id data len) (on_trace_calls cs)"

text \<open>
  The caller's buffer as the machine holds it: the \<open>len\<close> cells starting at \<open>data\<close>, each
  \<open>Some\<close> byte, or \<open>None\<close> where nothing is mapped (or the allocation was freed).
\<close>

definition buffer :: "'w::len word machine \<Rightarrow> 'w word \<Rightarrow> 'w word \<Rightarrow> byte option list" where
  "buffer s data len = map (\<lambda>i. mem s (data + of_nat i)) [0..<unat len]"

subsection \<open>The call-site contract, in the specification's words\<close>

text \<open>
  Written from the specification, to be compared with what the code needs: "data may be
  a null reference when length is zero, and must otherwise point to at least length
  readable bytes; length may be zero".
\<close>

definition spec_valid_args :: "'w::len word machine \<Rightarrow> 'w word \<Rightarrow> 'w word \<Rightarrow> bool" where
  "spec_valid_args s data len =
     (len = 0 \<or> (data \<noteq> NULL \<and> list_all (\<lambda>c. c \<noteq> None) (buffer s data len)))"

subsection \<open>A concrete machine\<close>

text \<open>
  The two bytes \<^verbatim>\<open>"ab"\<close> mapped at address \<^verbatim>\<open>0x1000\<close> of a 64-bit target, nothing else
  mapped, nothing written, read, held or waited for yet.
\<close>

definition machine_ab :: "64 word machine" where
  "machine_ab =
     \<lparr>mem = (\<lambda>a. if a = 0x1000 then Some 0x61 else if a = 0x1001 then Some 0x62 else None),
      written = [], accesses = [], held = 0, waits = 0\<rparr>"

section \<open>Facts about the machine\<close>

lemma seq_return_void_left: "seq return_void q = q"
  by (rule ext) (simp add: seq_def return_void_def)

lemma load_unmapped: "mem s a = None \<Longrightarrow> load a s = Inl Segfault"
  by (simp add: load_def)

lemma load_mapped:
  "mem s a = Some b \<Longrightarrow> load a s = Inr (b, s\<lparr>accesses := a # accesses s\<rparr>)"
  by (simp add: load_def)

lemma load_grows_accesses:
  "load a s = Inr (b, s') \<Longrightarrow> accesses s' \<noteq> accesses s"
  by (auto simp: load_def split: option.splits)

lemma on_trace_calls_return_void: "on_trace_calls cs = return_void"
proof (induction cs)
  case Nil
  show ?case by simp
next
  case (Cons c cs)
  obtain event_id data len where c: "c = (event_id, data, len)"
    by (cases c) auto
  show ?case
    by (simp add: c Cons.IH seq_return_void_left)
qed

lemma buffer_machine_ab: "buffer machine_ab 0x1000 2 = [Some 0x61, Some 0x62]"
proof -
  have "[0..<unat (2 :: 64 word)] = [0, Suc 0]"
    by (simp add: upt_rec)
  then show ?thesis
    by (simp add: buffer_def machine_ab_def)
qed

section \<open>The claims\<close>

text \<open>
  C1. For every input (any 32-bit event identifier, any buffer pointer, any length) and
  from every machine state, the default hook returns and the machine after the call is the
  machine before it: no byte of memory is changed and nothing is written to the outside
  (nor is any other component of the state touched).
\<close>

theorem on_trace_no_effect:
  "on_trace event_id data len s = Inr ((), s)"
  by (simp add: return_void_def)

text \<open>
  The specification's first end-to-end scenario, \<^verbatim>\<open>on_trace(1, "ab", 2)\<close>: normal return,
  the buffer still holds \<^verbatim>\<open>"ab"\<close>, no output.
\<close>

theorem on_trace_no_effect_witness:
  "on_trace 1 0x1000 2 machine_ab = Inr ((), machine_ab) \<and>
   buffer machine_ab 0x1000 2 = [Some 0x61, Some 0x62] \<and>
   written machine_ab = []"
proof -
  have "written machine_ab = []"
    by (simp add: machine_ab_def)
  with on_trace_no_effect [of 1 "0x1000" 2 machine_ab] buffer_machine_ab
  show ?thesis by simp
qed

text \<open>
  C2. For every input the call succeeds: the run ends in a return, never in a fault, and
  what it returns is the unit value (the function is \<^verbatim>\<open>void\<close>).
\<close>

theorem on_trace_always_succeeds:
  "(\<exists>s'. on_trace event_id data len s = Inr ((), s')) \<and>
   (\<forall>f. on_trace event_id data len s \<noteq> Inl f)"
  by (simp add: return_void_def)

text \<open>
  C4. Called with the null pointer and length 0, the hook returns without a fault and
  without dereferencing anything: the list of dereferenced addresses is the same after
  the call as before it.
\<close>

theorem on_trace_null_empty:
  "\<exists>s'. on_trace event_id NULL 0 s = Inr ((), s') \<and> accesses s' = accesses s"
  by (simp add: return_void_def)

text \<open>
  C5. Every call terminates: the hook is a total function without a loop and each run
  ends in a return. It completes without suspending, blocking or yielding (\<open>waits\<close> is
  unchanged) and acquires no resource (\<open>held\<close> is unchanged).
\<close>

theorem on_trace_terminates:
  "\<exists>s'. on_trace event_id data len s = Inr ((), s') \<and>
        waits s' = waits s \<and> held s' = held s"
  by (simp add: return_void_def)

text \<open>
  C6. The buffer passed as the data argument is neither mutated nor freed: after the
  call its \<open>len\<close> cells hold what they held before (a freed cell would hold \<open>None\<close>).
  It is not retained either: the whole memory is what it was, so no cell of it holds a
  reference that was not there before.
\<close>

theorem on_trace_buffer_untouched:
  "\<exists>s'. on_trace event_id data len s = Inr ((), s') \<and>
        buffer s' data len = buffer s data len \<and> mem s' = mem s"
  by (simp add: return_void_def)

text \<open>
  C7. The hook validates nothing and its behaviour depends on none of its inputs: two
  calls from the same machine state with arbitrary, possibly different, event identifiers,
  data pointers and lengths have the same outcome (the same return, the same state after).
\<close>

theorem on_trace_input_independent:
  "on_trace event_id data len s = on_trace event_id' data' len' s"
  by simp

text \<open>
  C9. The hook never reads the data buffer: for every input no address is dereferenced.
  So it returns without a fault also for the null pointer with any length, zero or not,
  while the call-site contract of the specification admits the null pointer for length
  zero only: the code needs strictly less than the contract asks of the caller.
\<close>

theorem on_trace_null_nonempty:
  "(\<exists>s'. on_trace event_id data len s = Inr ((), s') \<and> accesses s' = accesses s) \<and>
   on_trace event_id NULL len s = Inr ((), s) \<and>
   spec_valid_args s NULL len = (len = 0)"
  by (simp add: return_void_def spec_valid_args_def)

text \<open>The null pointer with length 1: outside the contract, and the call still returns.\<close>

theorem on_trace_null_nonempty_witness:
  "on_trace 7 NULL 1 machine_ab = Inr ((), machine_ab) \<and> \<not> spec_valid_args machine_ab NULL 1"
  using on_trace_null_nonempty [of 7 NULL 1 machine_ab] by simp

text \<open>
  C10. Any finite sequence of calls, with any arguments, leaves the machine as performing
  no call at all does, that is, unchanged. In particular calling twice is calling once,
  two calls commute, and so do two sequences of calls.
\<close>

theorem on_trace_calls_no_effect:
  "on_trace_calls cs s = on_trace_calls [] s \<and>
   on_trace_calls cs s = Inr ((), s) \<and>
   seq (on_trace event_id data len) (on_trace event_id data len) s =
     on_trace event_id data len s \<and>
   seq (on_trace event_id data len) (on_trace event_id' data' len') s =
     seq (on_trace event_id' data' len') (on_trace event_id data len) s \<and>
   on_trace_calls (cs @ ds) s = on_trace_calls (ds @ cs) s"
  by (simp add: on_trace_calls_return_void seq_return_void_left return_void_def)

end
